theory Spec2Isabelle
  imports Main
begin

section \<open>The Quantum Espresso molecular-dynamics tutorial notebook\<close>

text \<open>
  The repository is one Jupyter notebook, \<^verbatim>\<open>tutorial.ipynb\<close>, with five code cells:
  \<^enum> \<^verbatim>\<open>!module load espresso/6.2.1\<close>
  \<^enum> \<^verbatim>\<open>QE_input_file = """ ... """\<close>, the input deck as one string literal
  \<^enum> \<^verbatim>\<open>f = open("x0.md.in","w"); f.write(QE_input_file); f.close()\<close>
  \<^enum> \<^verbatim>\<open>!/util/academic/espresso/6.2.1/bin/pw.x < x0.md.in > x0.md.out\<close>
  \<^enum> \<^verbatim>\<open>!sh clean.sh\<close>, whose recorded output is four \<^verbatim>\<open>rm\<close> diagnostics.

  The notebook defines no function: the deck is the literal of cell 2 and nothing takes
  a deck as an argument. Strings are byte lists (\<^typ>\<open>string\<close>), the file system is an
  association list from file names to contents, and an exception is a value of
  \<open>error\<close> next to the world it leaves behind.
\<close>

subsection \<open>Text\<close>

definition newline :: char where
  "newline = CHR 0x0A"

definition carriage_return :: char where
  "carriage_return = CHR 0x0D"

definition nul :: char where
  "nul = CHR 0x00"

definition space :: char where
  "space = CHR '' ''"

definition quote :: char where
  "quote = CHR 0x27"

text \<open>Every line followed by a line break, as the triple-quoted literal has them.\<close>

definition unlines :: "string list \<Rightarrow> string" where
  "unlines ls = concat (map (\<lambda>l. l @ [newline]) ls)"

text \<open>
  Splitting at a separator byte. With the line break it is Python's
  \<^verbatim>\<open>s.splitlines()\<close>: a final separator ends the last piece and opens no empty one.
\<close>

primrec split_at :: "char \<Rightarrow> string \<Rightarrow> string list" where
  "split_at sep [] = []"
| "split_at sep (c # cs) =
     (if c = sep then [] # split_at sep cs
      else (case split_at sep cs of [] \<Rightarrow> [[c]] | l # ls \<Rightarrow> (c # l) # ls))"

definition split_lines :: "string \<Rightarrow> string list" where
  "split_lines s = split_at newline s"

fun starts_with :: "string \<Rightarrow> string \<Rightarrow> bool" where
  "starts_with [] s = True"
| "starts_with (p # ps) [] = False"
| "starts_with (p # ps) (c # cs) = (p = c \<and> starts_with ps cs)"

text \<open>Python's \<^verbatim>\<open>s.strip(' ')\<close>.\<close>

definition strip :: "string \<Rightarrow> string" where
  "strip s = rev (dropWhile (\<lambda>c. c = space) (rev (dropWhile (\<lambda>c. c = space) s)))"

text \<open>Python's \<^verbatim>\<open>str(i)\<close> of an integer.\<close>

definition digit :: "nat \<Rightarrow> char" where
  "digit n = ''0123456789'' ! (n mod 10)"

fun digits :: "nat \<Rightarrow> string" where
  "digits n = (if n < 10 then [digit n] else digits (n div 10) @ [digit n])"

definition str_int :: "int \<Rightarrow> string" where
  "str_int i = (if i < 0 then CHR ''-'' # digits (nat (- i)) else digits (nat i))"

declare digits.simps [simp del]

definition quoted :: "string \<Rightarrow> string" where
  "quoted s = quote # s @ [quote]"

text \<open>
  What Python's text mode does to line ends on reading (universal newlines): a carriage
  return followed by a line feed, and a lone carriage return, both come back as one
  line feed.
\<close>

fun universal_newlines :: "string \<Rightarrow> string" where
  "universal_newlines [] = []"
| "universal_newlines [c] = (if c = carriage_return then [newline] else [c])"
| "universal_newlines (c # d # cs) =
     (if c = carriage_return
      then (if d = newline then newline # universal_newlines cs
            else newline # universal_newlines (d # cs))
      else c # universal_newlines (d # cs))"

subsection \<open>The deck\<close>

text \<open>
  Cell 2 binds \<^verbatim>\<open>QE_input_file\<close> to a literal; \<open>QE_input_file\<close> below is that literal.
  The records name the values the literal holds, under the keys the literal gives them
  (\<^verbatim>\<open>nat\<close> is \<open>nat_decl\<close>, since \<open>nat\<close> is taken): integer literals are \<^typ>\<open>int\<close>,
  quoted values are strings, \<^verbatim>\<open>true\<close> is a \<^typ>\<open>bool\<close>, and a decimal literal such as
  \<^verbatim>\<open>20.67055\<close> or \<^verbatim>\<open>1.D-4\<close> is kept as the text the literal has. \<open>tio2_deck\<close> is the
  one deck of the notebook.
\<close>

record control_block =
  calculation :: string
  nstep :: int
  dt :: string
  pseudo_dir :: string
  outdir :: string
  prefix :: string
  disk_io :: string

record system_block =
  ibrav :: int
  nat_decl :: int
  ntyp :: int
  nspin :: int
  ecutwfc :: int
  ecutrho :: int
  occupations :: string
  smearing :: string
  degauss :: string
  nosym :: bool

record electrons_block =
  electron_maxstep :: int
  conv_thr :: string
  mixing_beta :: string

record ions_block =
  ion_dynamics :: string
  ion_temperature :: string
  tempw :: int
  nraise :: int
  pot_extrapolation :: string
  wfc_extrapolation :: string

text \<open>A species row: label, mass, pseudopotential file. An atom row: label, x, y, z.\<close>

type_synonym species_row = "string \<times> string \<times> string"
type_synonym vector_row = "string \<times> string \<times> string"
type_synonym atom_row = "string \<times> string \<times> string \<times> string"

record SimulationDeck =
  control :: control_block
  system :: system_block
  electrons :: electrons_block
  ions :: ions_block
  species :: "species_row list"
  k_points :: string
  cell_unit :: string
  cell :: "vector_row list"
  pos_unit :: string
  positions :: "atom_row list"

text \<open>The literal of cell 2 (notebook lines 118-176), line by line.\<close>

definition QE_lines :: "string list" where
  "QE_lines =
   ['''',
    ''&CONTROL'',
    ''  calculation   = 'md','',
    ''  nstep         = 100,'',
    ''  dt            = 20.67055,'',
    ''  pseudo_dir    = '/gpfs/scratch/brendan/nbra_tutorial/run_QE/','',
    ''  outdir        = './','',
    ''  prefix        = 'x0','',
    ''  disk_io       = 'low','',
    ''/'',
    '''',
    ''&SYSTEM'',
    ''  ibrav       = 0,'',
    ''  nat         = 6,'',
    ''  ntyp        = 2,'',
    ''  nspin       = 1,'',
    ''  ecutwfc     = 30,'',
    ''  ecutrho     = 300,'',
    ''  occupations = 'smearing','',
    ''  smearing    = 'gaussian','',
    ''  degauss     = 0.01,'',
    ''  nosym       = true,'',
    ''/'',
    '''',
    ''&ELECTRONS'',
    ''  electron_maxstep = 300,'',
    ''  conv_thr         = 1.D-4,'',
    ''  mixing_beta      = 0.30,'',
    ''/'',
    '''',
    ''&IONS'',
    ''  ion_dynamics      = 'verlet','',
    ''  ion_temperature   = 'andersen','',
    ''  tempw             = 300,'',
    ''  nraise            = 10,'',
    ''  pot_extrapolation = 'second-order','',
    ''  wfc_extrapolation = 'second-order','',
    ''/'',
    '''',
    ''ATOMIC_SPECIES'',
    ''Ti 47.867 Ti.pbe-spn-rrkjus_psl.1.0.0.UPF'',
    ''O  15.999 O.pbe-n-rrkjus_psl.1.0.0.UPF'',
    '''',
    ''K_POINTS gamma'',
    '''',
    ''CELL_PARAMETERS  angstrom'',
    ''        4.6067771912         0.0000000000         0.0000000000'',
    ''        0.0000000000         4.6067771912         0.0000000000'',
    ''        0.0000000000         0.0000000000         2.9917566776'',
    '''',
    ''ATOMIC_POSITIONS angstrom'',
    ''Ti    0.000000000         0.000000000         0.000000000'',
    ''Ti    2.303388596         2.303388596         1.495878339'',
    ''O     3.204133272         3.204133272         0.000000000'',
    ''O     1.402643919         1.402643919         0.000000000'',
    ''O     0.900744736         3.706032515         1.495878339'',
    ''O     3.706032515         0.900744736         1.495878339'']"

definition QE_input_file :: string where
  "QE_input_file = unlines QE_lines"

text \<open>The values the literal holds: one TiO2 cell, 2 Ti and 4 O atoms, 2 species.\<close>

definition tio2_deck :: SimulationDeck where
  "tio2_deck =
    \<lparr>control = \<lparr>calculation = ''md'', nstep = 100, dt = ''20.67055'',
        pseudo_dir = ''/gpfs/scratch/brendan/nbra_tutorial/run_QE/'', outdir = ''./'',
        prefix = ''x0'', disk_io = ''low''\<rparr>,
     system = \<lparr>ibrav = 0, nat_decl = 6, ntyp = 2, nspin = 1, ecutwfc = 30, ecutrho = 300,
        occupations = ''smearing'', smearing = ''gaussian'', degauss = ''0.01'',
        nosym = True\<rparr>,
     electrons = \<lparr>electron_maxstep = 300, conv_thr = ''1.D-4'', mixing_beta = ''0.30''\<rparr>,
     ions = \<lparr>ion_dynamics = ''verlet'', ion_temperature = ''andersen'', tempw = 300,
        nraise = 10, pot_extrapolation = ''second-order'',
        wfc_extrapolation = ''second-order''\<rparr>,
     species = [(''Ti'', ''47.867'', ''Ti.pbe-spn-rrkjus_psl.1.0.0.UPF''),
                (''O'', ''15.999'', ''O.pbe-n-rrkjus_psl.1.0.0.UPF'')],
     k_points = ''gamma'',
     cell_unit = ''angstrom'',
     cell = [(''4.6067771912'', ''0.0000000000'', ''0.0000000000''),
             (''0.0000000000'', ''4.6067771912'', ''0.0000000000''),
             (''0.0000000000'', ''0.0000000000'', ''2.9917566776'')],
     pos_unit = ''angstrom'',
     positions = [(''Ti'', ''0.000000000'', ''0.000000000'', ''0.000000000''),
                  (''Ti'', ''2.303388596'', ''2.303388596'', ''1.495878339''),
                  (''O'', ''3.204133272'', ''3.204133272'', ''0.000000000''),
                  (''O'', ''1.402643919'', ''1.402643919'', ''0.000000000''),
                  (''O'', ''0.900744736'', ''3.706032515'', ''1.495878339''),
                  (''O'', ''3.706032515'', ''0.900744736'', ''1.495878339'')]\<rparr>"

subsection \<open>Reading a deck text\<close>

text \<open>
  What the external program looks for in the text: a namelist header starts with
  \<^verbatim>\<open>&\<close>, a card header starts with the card's keyword; \<^verbatim>\<open>key = value,\<close> assigns; the
  rows of a card are the lines after its header up to the next empty line.
\<close>

definition card_keywords :: "string list" where
  "card_keywords = [''ATOMIC_SPECIES'', ''K_POINTS'', ''CELL_PARAMETERS'', ''ATOMIC_POSITIONS'']"

definition is_header :: "string \<Rightarrow> bool" where
  "is_header l = (starts_with ''&'' l \<or> list_ex (\<lambda>k. starts_with k l) card_keywords)"

definition header_lines :: "string \<Rightarrow> string list" where
  "header_lines t = filter is_header (split_lines t)"

definition card_rows :: "string \<Rightarrow> string \<Rightarrow> string list" where
  "card_rows keyword t =
     takeWhile (\<lambda>l. l \<noteq> []) (tl (dropWhile (\<lambda>l. \<not> starts_with keyword l) (split_lines t)))"

definition drop_comma :: "string \<Rightarrow> string" where
  "drop_comma v = (if v \<noteq> [] \<and> last v = CHR '','' then butlast v else v)"

definition assignment :: "string \<Rightarrow> (string \<times> string) option" where
  "assignment l =
     (if CHR ''='' \<in> set l
      then Some (strip (takeWhile (\<lambda>c. c \<noteq> CHR ''='') l),
                 drop_comma (strip (tl (dropWhile (\<lambda>c. c \<noteq> CHR ''='') l))))
      else None)"

definition deck_value :: "string \<Rightarrow> string \<Rightarrow> string option" where
  "deck_value key t = map_of (List.map_filter assignment (split_lines t)) key"


subsection \<open>Files in Python\<close>

text \<open>
  The errors of the model: \<open>IOError\<close> is Python's (an alias of \<^verbatim>\<open>OSError\<close>),
  \<open>ValueError\<close> is what \<^verbatim>\<open>open\<close> raises for a path with a NUL byte and what a closed
  file object raises when written to.
\<close>

datatype error = IOError | ValueError

text \<open>
  The world the cells act on.
  \<^item> \<open>files\<close>: the bytes the device holds, by file name;
  \<^item> \<open>handles\<close>: the file objects that are open, each with its path and the text still in
    its buffer;
  \<^item> \<open>unwritable\<close>: the paths the operating system refuses to open for writing;
  \<^item> \<open>room\<close>: how many bytes the device will take from the file objects the notebook
    opens, once their files are emptied; a write beyond it stores what fits and fails;
  \<^item> \<open>buffer_size\<close>: the size of the buffer of a file object (8192 bytes, or the block
    size of the device when that is larger);
  \<^item> \<open>printed\<close>: the diagnostics the cleanup prints below its cell.

  A text is the bytes it is written as: the deck is ASCII, and the notebook ran on
  Linux, where text mode writes the bytes of an ASCII text as they are. Encoding and
  decoding are not part of the model.
\<close>

record world =
  files :: "(string \<times> string) list"
  handles :: "(string \<times> string) list"
  unwritable :: "string list"
  room :: nat
  buffer_size :: nat
  printed :: "string list"

definition store :: "string \<Rightarrow> string \<Rightarrow> (string \<times> string) list \<Rightarrow> (string \<times> string) list" where
  "store name content fs = (name, content) # filter (\<lambda>(n, c). n \<noteq> name) fs"

text \<open>The buffer of the first open file object of a path replaced, and that object removed.\<close>

fun set_pending :: "string \<Rightarrow> string \<Rightarrow> (string \<times> string) list \<Rightarrow> (string \<times> string) list" where
  "set_pending p b [] = []"
| "set_pending p b ((q, c) # hs) = (if q = p then (q, b) # hs else (q, c) # set_pending p b hs)"

fun drop_handle :: "string \<Rightarrow> (string \<times> string) list \<Rightarrow> (string \<times> string) list" where
  "drop_handle p [] = []"
| "drop_handle p ((q, c) # hs) = (if q = p then hs else (q, c) # drop_handle p hs)"

text \<open>
  Bytes sent to the device at the end of a file: all of them when there is room;
  otherwise what fits is stored and the write fails.
\<close>

definition raw_write :: "string \<Rightarrow> string \<Rightarrow> world \<Rightarrow> error option \<times> world" where
  "raw_write path bytes w =
     (let old = (case map_of (files w) path of None \<Rightarrow> [] | Some c \<Rightarrow> c) in
      if length bytes \<le> room w
      then (None, w\<lparr>files := store path (old @ bytes) (files w), room := room w - length bytes\<rparr>)
      else (Some IOError,
            w\<lparr>files := store path (old @ take (room w) bytes) (files w), room := 0\<rparr>))"

text \<open>
  \<^verbatim>\<open>open(path,"w")\<close>: \<^verbatim>\<open>ValueError\<close> for a path with a NUL byte, \<^verbatim>\<open>OSError\<close> for a path
  the system refuses; otherwise the file is emptied and a file object with an empty
  buffer is open.
\<close>

definition py_open_w :: "string \<Rightarrow> world \<Rightarrow> error option \<times> world" where
  "py_open_w path w =
     (if nul \<in> set path then (Some ValueError, w)
      else if path \<in> set (unwritable w) then (Some IOError, w)
      else (None, w\<lparr>files := store path [] (files w), handles := (path, []) # handles w\<rparr>))"

text \<open>
  \<^verbatim>\<open>f.write(text)\<close>: the text joins the buffer; only when the buffer overflows are the
  buffered bytes sent to the device, and only then can the call raise. The file object
  stays open either way.
\<close>

definition py_write :: "string \<Rightarrow> string \<Rightarrow> world \<Rightarrow> error option \<times> world" where
  "py_write path t w =
     (case map_of (handles w) path of
        None \<Rightarrow> (Some ValueError, w)
      | Some pending \<Rightarrow>
          (if length (pending @ t) \<le> buffer_size w
           then (None, w\<lparr>handles := set_pending path (pending @ t) (handles w)\<rparr>)
           else raw_write path (pending @ t) (w\<lparr>handles := set_pending path [] (handles w)\<rparr>)))"

text \<open>
  \<^verbatim>\<open>f.close()\<close>: the buffered bytes are sent to the device and the file object is
  closed; when the device rejects the bytes the call raises and the file object is
  closed all the same. Closing a closed file object does nothing.
\<close>

definition py_close :: "string \<Rightarrow> world \<Rightarrow> error option \<times> world" where
  "py_close path w =
     (case map_of (handles w) path of
        None \<Rightarrow> (None, w)
      | Some pending \<Rightarrow>
          (if pending = [] then (None, w\<lparr>handles := drop_handle path (handles w)\<rparr>)
           else raw_write path pending (w\<lparr>handles := drop_handle path (handles w)\<rparr>)))"

text \<open>
  Cell 3 (notebook lines 195-197) with the text and the path as arguments. The three
  statements stand one after the other, with no \<^verbatim>\<open>with\<close> and no \<^verbatim>\<open>try\<close>: an
  exception ends the cell where it is raised.
\<close>

definition writeDeck :: "string \<Rightarrow> string \<Rightarrow> world \<Rightarrow> error option \<times> world" where
  "writeDeck t path w =
     (case py_open_w path w of
        (Some e, w1) \<Rightarrow> (Some e, w1)
      | (None, w1) \<Rightarrow>
          (case py_write path t w1 of
             (Some e, w2) \<Rightarrow> (Some e, w2)
           | (None, w2) \<Rightarrow> py_close path w2))"

text \<open>
  \<^verbatim>\<open>open(path).read()\<close>, in text mode: the bytes of the file with their line ends
  translated. The notebook never calls it.
\<close>

definition py_read :: "string \<Rightarrow> world \<Rightarrow> error + string" where
  "py_read path w =
     (if nul \<in> set path then Inl ValueError
      else (case map_of (files w) path of
              None \<Rightarrow> Inl IOError
            | Some c \<Rightarrow> Inr (universal_newlines c)))"

subsection \<open>The shell escape of cell 4\<close>

text \<open>The command line of cell 4 (notebook line 215) and the paths it redirects.\<close>

definition pw_command :: string where
  "pw_command = ''/util/academic/espresso/6.2.1/bin/pw.x < x0.md.in > x0.md.out''"

definition shell_words :: "string \<Rightarrow> string list" where
  "shell_words s = filter (\<lambda>w. w \<noteq> []) (split_at space s)"

fun redirect_of :: "string \<Rightarrow> string list \<Rightarrow> string option" where
  "redirect_of opr (w # v # ws) = (if w = opr then Some v else redirect_of opr (v # ws))"
| "redirect_of opr ws = None"

definition input_path :: string where
  "input_path = ''x0.md.in''"

definition output_path :: string where
  "output_path = ''x0.md.out''"

text \<open>
  The external program is a parameter. A program that runs takes the bytes on its
  standard input and the working directory it finds, and gives the bytes it prints,
  the working directory it leaves and its exit status. \<open>None\<close> stands for a command
  the shell cannot start (no such file, or not executable).
\<close>

type_synonym program =
  "string \<Rightarrow> (string \<times> string) list \<Rightarrow> string \<times> (string \<times> string) list \<times> nat"

datatype shell_result = RedirectFailed | CannotStart | Exited nat

text \<open>
  \<^verbatim>\<open>command < inp > out\<close>. The shell sets up the redirections first, from left to
  right: without \<open>inp\<close>, or with an \<open>out\<close> it may not write, nothing is started.
  Then \<open>out\<close> exists and is empty. A command that cannot be started leaves it so; a
  program that runs is applied once, and what it printed is the content of \<open>out\<close>,
  whatever the program says of that file in the directory it leaves. The status is the
  program's own.
\<close>

definition execute ::
  "program option \<Rightarrow> string \<Rightarrow> string \<Rightarrow> world \<Rightarrow> shell_result \<times> world" where
  "execute prog inp out w =
     (case map_of (files w) inp of
        None \<Rightarrow> (RedirectFailed, w)
      | Some stdin \<Rightarrow>
          (if out \<in> set (unwritable w) then (RedirectFailed, w)
           else
             (case prog of
                None \<Rightarrow> (CannotStart, w\<lparr>files := store out [] (files w)\<rparr>)
              | Some p \<Rightarrow>
                  (case p stdin (store out [] (files w)) of
                     (stdout, dir, status) \<Rightarrow>
                       (Exited status, w\<lparr>files := store out stdout dir\<rparr>)))))"

subsection \<open>Cleanup\<close>

text \<open>The shell's pattern matching, for patterns of plain bytes and \<^verbatim>\<open>*\<close>.\<close>

fun glob :: "string \<Rightarrow> string \<Rightarrow> bool" where
  "glob [] [] = True"
| "glob [] (c # cs) = False"
| "glob (p # ps) [] = (p = CHR ''*'' \<and> glob ps [])"
| "glob (p # ps) (c # cs) =
     (if p = CHR ''*'' then glob ps (c # cs) \<or> glob (p # ps) cs else p = c \<and> glob ps cs)"

text \<open>The patterns named by the recorded output of cell 5 (notebook lines 234-237).\<close>

definition clean_patterns :: "string list" where
  "clean_patterns = [''x0.w*'', ''sl*'', ''x0.u*'', ''CR*'']"

text \<open>What \<^verbatim>\<open>rm\<close> prints for a pattern that matches nothing; the quotes are U+2018, U+2019.\<close>

definition rm_diagnostic :: "string \<Rightarrow> string" where
  "rm_diagnostic pat =
     ''rm: cannot remove '' @ [CHR 0xE2, CHR 0x80, CHR 0x98] @ pat @
     [CHR 0xE2, CHR 0x80, CHR 0x99] @ '': No such file or directory''"

text \<open>
  Modelled from the spec: \<^verbatim>\<open>clean.sh\<close>, the script cell 5 runs, is not among the
  repository's files; only its invocation and its recorded output are. The spec's
  \<open>cleanup(globPatterns)\<close> "deletes any existing file matching each pattern; a pattern
  matching zero files is not an error (idempotent no-op)". The diagnostic for a
  pattern without a match is the one the recorded output shows.
\<close>

definition rm_glob ::
  "string \<Rightarrow> (string \<times> string) list \<Rightarrow> (string \<times> string) list \<times> string list" where
  "rm_glob pat fs =
     (if list_ex (\<lambda>(n, c). glob pat n) fs
      then (filter (\<lambda>(n, c). \<not> glob pat n) fs, [])
      else (fs, [rm_diagnostic pat]))"

text \<open>
  Modelled from the spec: \<^verbatim>\<open>clean.sh\<close> over all its patterns, one after the other,
  collecting what is printed.
\<close>

fun cleanup ::
  "string list \<Rightarrow> (string \<times> string) list \<Rightarrow> (string \<times> string) list \<times> string list" where
  "cleanup [] fs = (fs, [])"
| "cleanup (p # ps) fs =
     (case rm_glob p fs of
        (fs1, d1) \<Rightarrow> (case cleanup ps fs1 of (fs2, d2) \<Rightarrow> (fs2, d1 @ d2)))"

text \<open>
  Modelled from the spec: the cleanup step as the notebook sees it (\<^verbatim>\<open>clean.sh\<close> is
  not among the repository's files). A shell escape raises nothing, whatever the script
  prints or returns: "a pattern matching zero files is not an error".
\<close>

definition cleanup_step :: "string list \<Rightarrow> world \<Rightarrow> error option \<times> world" where
  "cleanup_step pats w =
     (case cleanup pats (files w) of
        (fs, diags) \<Rightarrow> (None, w\<lparr>files := fs, printed := printed w @ diags\<rparr>))"

definition run_prefix_of :: "string \<Rightarrow> string" where
  "run_prefix_of name = takeWhile (\<lambda>c. c \<noteq> CHR ''.'') name"

subsection \<open>The notebook\<close>

text \<open>
  A cell takes the world and gives the exception it ended with, if any, and the world
  it leaves. Cells run in the order of the notebook; a cell that raises ends the run.
\<close>

type_synonym step = "world \<Rightarrow> error option \<times> world"

fun run_steps :: "step list \<Rightarrow> world \<Rightarrow> error option \<times> world" where
  "run_steps [] w = (None, w)"
| "run_steps (s # ss) w =
     (case s w of
        (Some e, w1) \<Rightarrow> (Some e, w1)
      | (None, w1) \<Rightarrow> run_steps ss w1)"

text \<open>
  Cell 1 loads a module in a subshell of its own; cell 2 binds the literal. Cell 4 is a
  shell escape: it raises nothing, and the notebook neither binds nor reads the status
  of the command. Cell 5 is a shell escape too; the script it runs, \<^verbatim>\<open>clean.sh\<close>, is
  not among the repository's files and is a parameter of the notebook: what it does to
  the world.
\<close>

definition cell_1 :: step where
  "cell_1 w = (None, w)"

definition cell_2 :: step where
  "cell_2 w = (None, w)"

definition cell_3 :: step where
  "cell_3 w = writeDeck QE_input_file input_path w"

definition cell_4 :: "program option \<Rightarrow> step" where
  "cell_4 prog w = (None, snd (execute prog input_path output_path w))"

definition cell_5 :: "(world \<Rightarrow> world) \<Rightarrow> step" where
  "cell_5 script w = (None, script w)"

definition notebook :: "program option \<Rightarrow> (world \<Rightarrow> world) \<Rightarrow> step list" where
  "notebook prog script = [cell_1, cell_2, cell_3, cell_4 prog, cell_5 script]"

text \<open>
  Modelled from the spec: \<^verbatim>\<open>clean.sh\<close> as a script, with the patterns of the recorded
  output.
\<close>

definition clean_sh :: "world \<Rightarrow> world" where
  "clean_sh w = snd (cleanup_step clean_patterns w)"

text \<open>
  The world cell 3 leaves when it completes, and the working directory the program of
  cell 4 then finds: the deck is in \<^verbatim>\<open>x0.md.in\<close> and \<^verbatim>\<open>x0.md.out\<close> is empty.
\<close>

definition deck_written :: "world \<Rightarrow> world" where
  "deck_written w =
     w\<lparr>files := store input_path QE_input_file (files w),
       room := room w - length QE_input_file\<rparr>"

definition program_finds :: "world \<Rightarrow> (string \<times> string) list" where
  "program_finds w = store output_path [] (files (deck_written w))"

text \<open>
  An empty working directory on a device with room, and the same on a device that
  accepts nothing more.
\<close>

definition fresh_world :: world where
  "fresh_world =
     \<lparr>files = [], handles = [], unwritable = [], room = 1000000, buffer_size = 8192,
      printed = []\<rparr>"

definition full_device :: world where
  "full_device = fresh_world\<lparr>room := 0\<rparr>"



text \<open>
  A stand-in program: it prints one line, leaves two scratch files and adds one entry
  to a log of its runs.
\<close>

definition stub_program :: program where
  "stub_program stdin dir =
     (''JOB DONE.'',
      store ''x0.log'' ((case map_of dir ''x0.log'' of None \<Rightarrow> [] | Some l \<Rightarrow> l) @ ''run;'')
        ((''x0.wfc1'', ''scratch'') # (''x0.update'', ''scratch'') # dir),
      0)"

section \<open>Lemmas\<close>

subsection \<open>The literal and its lines\<close>

lemma split_at_sep: "sep \<notin> set l \<Longrightarrow> split_at sep (l @ sep # rest) = l # split_at sep rest"
  by (induction l) auto

lemma split_lines_unlines:
  "list_all (\<lambda>l. newline \<notin> set l) ls \<Longrightarrow> split_lines (unlines ls) = ls"
  by (induction ls) (simp_all add: split_lines_def unlines_def split_at_sep)

lemma QE_lines_no_newline: "list_all (\<lambda>l. newline \<notin> set l) QE_lines"
  by (simp add: QE_lines_def newline_def)

lemma split_QE: "split_lines QE_input_file = QE_lines"
  by (simp add: QE_input_file_def split_lines_unlines QE_lines_no_newline)

lemma length_QE: "length QE_input_file = 1456"
  by (simp add: QE_input_file_def unlines_def QE_lines_def)

lemma set_unlines: "set (unlines ls) = (\<Union>l \<in> set ls. set l) \<union> (if ls = [] then {} else {newline})"
  by (induction ls) (auto simp: unlines_def)

lemma QE_no_carriage_return: "carriage_return \<notin> set QE_input_file"
  by (simp add: QE_input_file_def set_unlines) (simp add: QE_lines_def carriage_return_def newline_def)

lemma universal_newlines_plain: "carriage_return \<notin> set t \<Longrightarrow> universal_newlines t = t"
  by (induction t rule: universal_newlines.induct) auto

subsection \<open>What the literal holds\<close>

lemma literal_assignments:
  "List.map_filter assignment QE_lines =
    [(''calculation'', quoted ''md''), (''nstep'', ''100''), (''dt'', ''20.67055''),
     (''pseudo_dir'', quoted ''/gpfs/scratch/brendan/nbra_tutorial/run_QE/''),
     (''outdir'', quoted ''./''), (''prefix'', quoted ''x0''), (''disk_io'', quoted ''low''),
     (''ibrav'', ''0''), (''nat'', ''6''), (''ntyp'', ''2''), (''nspin'', ''1''),
     (''ecutwfc'', ''30''), (''ecutrho'', ''300''), (''occupations'', quoted ''smearing''),
     (''smearing'', quoted ''gaussian''), (''degauss'', ''0.01''), (''nosym'', ''true''),
     (''electron_maxstep'', ''300''), (''conv_thr'', ''1.D-4''), (''mixing_beta'', ''0.30''),
     (''ion_dynamics'', quoted ''verlet''), (''ion_temperature'', quoted ''andersen''),
     (''tempw'', ''300''), (''nraise'', ''10''), (''pot_extrapolation'', quoted ''second-order''),
     (''wfc_extrapolation'', quoted ''second-order'')]"
  by (simp add: QE_lines_def assignment_def strip_def drop_comma_def space_def quoted_def
      quote_def List.map_filter_simps)

lemma literal_headers:
  "filter is_header QE_lines =
     [''&CONTROL'', ''&SYSTEM'', ''&ELECTRONS'', ''&IONS'', ''ATOMIC_SPECIES'',
      ''K_POINTS gamma'', ''CELL_PARAMETERS  angstrom'', ''ATOMIC_POSITIONS angstrom'']"
  by (simp add: QE_lines_def is_header_def card_keywords_def)

lemma literal_positions:
  "card_rows ''ATOMIC_POSITIONS'' QE_input_file =
    [''Ti    0.000000000         0.000000000         0.000000000'',
     ''Ti    2.303388596         2.303388596         1.495878339'',
     ''O     3.204133272         3.204133272         0.000000000'',
     ''O     1.402643919         1.402643919         0.000000000'',
     ''O     0.900744736         3.706032515         1.495878339'',
     ''O     3.706032515         0.900744736         1.495878339'']"
  by (simp add: card_rows_def split_QE QE_lines_def)

lemma literal_species:
  "card_rows ''ATOMIC_SPECIES'' QE_input_file =
    [''Ti 47.867 Ti.pbe-spn-rrkjus_psl.1.0.0.UPF'', ''O  15.999 O.pbe-n-rrkjus_psl.1.0.0.UPF'']"
  by (simp add: card_rows_def split_QE QE_lines_def)

lemma literal_cell:
  "card_rows ''CELL_PARAMETERS'' QE_input_file =
    [''        4.6067771912         0.0000000000         0.0000000000'',
     ''        0.0000000000         4.6067771912         0.0000000000'',
     ''        0.0000000000         0.0000000000         2.9917566776'']"
  by (simp add: card_rows_def split_QE QE_lines_def)

lemma str_int_code:
  "str_int 0 = ''0''" "str_int 1 = ''1''" "str_int 2 = ''2''" "str_int 6 = ''6''"
  "str_int 10 = ''10''" "str_int 30 = ''30''" "str_int 100 = ''100''"
  "str_int 300 = ''300''"
  by (simp_all add: str_int_def digits.simps [of 10] digits.simps [of 30]
      digits.simps [of 100] digits.simps [of 300] digits.simps [of 3] digits.simps [of 1]
      digits.simps [of 2] digits.simps [of 6] digits.simps [of 0]
      digits.simps [of "Suc 0"] digit_def)

lemma tio2_deck_values:
  "List.map_filter assignment (split_lines QE_input_file) =
    [(''calculation'', quoted (calculation (control tio2_deck))),
     (''nstep'', str_int (nstep (control tio2_deck))),
     (''dt'', dt (control tio2_deck)),
     (''pseudo_dir'', quoted (pseudo_dir (control tio2_deck))),
     (''outdir'', quoted (outdir (control tio2_deck))),
     (''prefix'', quoted (prefix (control tio2_deck))),
     (''disk_io'', quoted (disk_io (control tio2_deck))),
     (''ibrav'', str_int (ibrav (system tio2_deck))),
     (''nat'', str_int (nat_decl (system tio2_deck))),
     (''ntyp'', str_int (ntyp (system tio2_deck))),
     (''nspin'', str_int (nspin (system tio2_deck))),
     (''ecutwfc'', str_int (ecutwfc (system tio2_deck))),
     (''ecutrho'', str_int (ecutrho (system tio2_deck))),
     (''occupations'', quoted (occupations (system tio2_deck))),
     (''smearing'', quoted (smearing (system tio2_deck))),
     (''degauss'', degauss (system tio2_deck)),
     (''nosym'', if nosym (system tio2_deck) then ''true'' else ''false''),
     (''electron_maxstep'', str_int (electron_maxstep (electrons tio2_deck))),
     (''conv_thr'', conv_thr (electrons tio2_deck)),
     (''mixing_beta'', mixing_beta (electrons tio2_deck)),
     (''ion_dynamics'', quoted (ion_dynamics (ions tio2_deck))),
     (''ion_temperature'', quoted (ion_temperature (ions tio2_deck))),
     (''tempw'', str_int (tempw (ions tio2_deck))),
     (''nraise'', str_int (nraise (ions tio2_deck))),
     (''pot_extrapolation'', quoted (pot_extrapolation (ions tio2_deck))),
     (''wfc_extrapolation'', quoted (wfc_extrapolation (ions tio2_deck)))]"
  by (simp add: split_QE literal_assignments tio2_deck_def str_int_code)

lemma tio2_deck_rows:
  "map shell_words (card_rows ''ATOMIC_SPECIES'' QE_input_file) =
     map (\<lambda>(l, m, p). [l, m, p]) (species tio2_deck)"
  "map shell_words (card_rows ''CELL_PARAMETERS'' QE_input_file) =
     map (\<lambda>(a, b, c). [a, b, c]) (cell tio2_deck)"
  "map shell_words (card_rows ''ATOMIC_POSITIONS'' QE_input_file) =
     map (\<lambda>(l, x, y, z). [l, x, y, z]) (positions tio2_deck)"
  "header_lines QE_input_file =
     [''&CONTROL'', ''&SYSTEM'', ''&ELECTRONS'', ''&IONS'', ''ATOMIC_SPECIES'',
      ''K_POINTS '' @ k_points tio2_deck, ''CELL_PARAMETERS  '' @ cell_unit tio2_deck,
      ''ATOMIC_POSITIONS '' @ pos_unit tio2_deck]"
  by (simp_all add: literal_species literal_cell literal_positions tio2_deck_def
      shell_words_def space_def header_lines_def split_QE literal_headers)


text \<open>
  The scenario of the notebook read off the literal: 6 atoms are declared and 2 species,
  and there are 6 coordinate rows (2 Ti, 4 O) and 2 species rows.
\<close>

lemma literal_scenario:
  "deck_value ''nat'' QE_input_file = Some ''6'' \<and>
   deck_value ''ntyp'' QE_input_file = Some ''2'' \<and>
   length (card_rows ''ATOMIC_POSITIONS'' QE_input_file) = 6 \<and>
   length (card_rows ''ATOMIC_SPECIES'' QE_input_file) = 2 \<and>
   map (\<lambda>l. hd (shell_words l)) (card_rows ''ATOMIC_POSITIONS'' QE_input_file) =
     [''Ti'', ''Ti'', ''O'', ''O'', ''O'', ''O'']"
  by (simp add: deck_value_def split_QE literal_assignments literal_positions
      literal_species shell_words_def space_def)

subsection \<open>Writing a file\<close>

lemma input_path_plain: "nul \<notin> set input_path"
  by (simp add: input_path_def nul_def)

lemma map_of_store: "map_of (store n c fs) k = (if k = n then Some c else map_of fs k)"
proof -
  have "k \<noteq> n \<Longrightarrow> map_of (filter (\<lambda>(m, c). m \<noteq> n) fs) k = map_of fs k"
    by (induction fs) auto
  then show ?thesis by (simp add: store_def)
qed

lemma map_of_filter_keep:
  "P k \<Longrightarrow> map_of (filter (\<lambda>(n, c). P n) fs) k = map_of fs k"
  by (induction fs) auto

lemma store_store: "store n c (store n c' fs) = store n c fs"
  by (simp add: store_def)

lemma writeDeck_nul: "nul \<in> set path \<Longrightarrow> writeDeck t path w = (Some ValueError, w)"
  by (simp add: writeDeck_def py_open_w_def)

lemma writeDeck_refused:
  "nul \<notin> set path \<Longrightarrow> path \<in> set (unwritable w) \<Longrightarrow> writeDeck t path w = (Some IOError, w)"
  by (simp add: writeDeck_def py_open_w_def)

lemma writeDeck_done:
  assumes "nul \<notin> set path" "path \<notin> set (unwritable w)" "length t \<le> room w"
  shows "writeDeck t path w =
    (None, w\<lparr>files := store path t (files w), room := room w - length t\<rparr>)"
proof (cases "length t \<le> buffer_size w")
  case True
  with assms show ?thesis
    by (cases "t = []")
      (simp_all add: writeDeck_def py_open_w_def py_write_def py_close_def raw_write_def
        map_of_store store_store)
next
  case False
  with assms show ?thesis
    by (simp add: writeDeck_def py_open_w_def py_write_def py_close_def raw_write_def
        map_of_store store_store)
qed

lemma writeDeck_fails_at_close:
  assumes "nul \<notin> set path" "path \<notin> set (unwritable w)" "room w < length t"
    and "length t \<le> buffer_size w"
  shows "writeDeck t path w =
    (Some IOError, w\<lparr>files := store path (take (room w) t) (files w), room := 0\<rparr>)"
proof -
  from assms(3) have "t \<noteq> []" by auto
  with assms show ?thesis
    by (simp add: writeDeck_def py_open_w_def py_write_def py_close_def raw_write_def
        map_of_store store_store)
qed

lemma writeDeck_fails_at_write:
  assumes "nul \<notin> set path" "path \<notin> set (unwritable w)" "room w < length t"
    and "buffer_size w < length t"
  shows "writeDeck t path w =
    (Some IOError,
     w\<lparr>files := store path (take (room w) t) (files w),
        handles := (path, []) # handles w, room := 0\<rparr>)"
  using assms
  by (simp add: writeDeck_def py_open_w_def py_write_def raw_write_def map_of_store
      store_store)


lemma writeDeck_completes:
  assumes "fst (writeDeck t path w) = None"
  shows "nul \<notin> set path" and "path \<notin> set (unwritable w)" and "length t \<le> room w"
proof -
  show 1: "nul \<notin> set path"
  proof
    assume "nul \<in> set path"
    then have "writeDeck t path w = (Some ValueError, w)" by (rule writeDeck_nul)
    with assms show False by simp
  qed
  show 2: "path \<notin> set (unwritable w)"
  proof
    assume "path \<in> set (unwritable w)"
    with 1 have "writeDeck t path w = (Some IOError, w)" by (rule writeDeck_refused)
    with assms show False by simp
  qed
  show "length t \<le> room w"
  proof (rule ccontr)
    assume "\<not> length t \<le> room w"
    then have small: "room w < length t" by simp
    have "fst (writeDeck t path w) = Some IOError"
    proof (cases "length t \<le> buffer_size w")
      case True
      with 1 2 small show ?thesis by (simp add: writeDeck_fails_at_close)
    next
      case False
      with 1 2 small show ?thesis by (simp add: writeDeck_fails_at_write)
    qed
    with assms show False by simp
  qed
qed

subsection \<open>Cleanup\<close>

lemma rm_glob_files: "fst (rm_glob p fs) = filter (\<lambda>(n, c). \<not> glob p n) fs"
proof (cases "list_ex (\<lambda>(n, c). glob p n) fs")
  case True
  then show ?thesis by (simp add: rm_glob_def)
next
  case False
  then have "filter (\<lambda>(n, c). \<not> glob p n) fs = fs"
    by (auto simp: list_ex_iff intro!: filter_True)
  with False show ?thesis by (simp add: rm_glob_def)
qed

lemma cleanup_files:
  "fst (cleanup ps fs) = filter (\<lambda>(n, c). list_all (\<lambda>p. \<not> glob p n) ps) fs"
proof (induction ps arbitrary: fs)
  case Nil
  show ?case by simp
next
  case (Cons p ps)
  have "fst (cleanup (p # ps) fs) = fst (cleanup ps (fst (rm_glob p fs)))"
    by (simp split: prod.splits)
  also have "\<dots> = filter (\<lambda>(n, c). list_all (\<lambda>p. \<not> glob p n) ps)
                      (filter (\<lambda>(n, c). \<not> glob p n) fs)"
    by (simp add: Cons.IH rm_glob_files)
  also have "\<dots> = filter (\<lambda>(n, c). list_all (\<lambda>p. \<not> glob p n) (p # ps)) fs"
    by (induction fs) auto
  finally show ?case .
qed

lemma cleanup_no_match:
  "list_all (\<lambda>(n, c). list_all (\<lambda>p. \<not> glob p n) ps) fs \<Longrightarrow>
   cleanup ps fs = (fs, map rm_diagnostic ps)"
proof (induction ps)
  case Nil
  show ?case by simp
next
  case (Cons p ps)
  then have none: "\<not> list_ex (\<lambda>(n, c). glob p n) fs"
    by (auto simp: list_ex_iff list_all_iff)
  from Cons have "list_all (\<lambda>(n, c). list_all (\<lambda>p. \<not> glob p n) ps) fs"
    by (auto simp: list_all_iff)
  with Cons.IH none show ?case by (simp add: rm_glob_def)
qed

lemma cleanup_second_run:
  "cleanup ps (fst (cleanup ps fs)) = (fst (cleanup ps fs), map rm_diagnostic ps)"
  by (rule cleanup_no_match) (simp add: cleanup_files list_all_iff split: prod.splits)

lemma cleanup_keeps:
  "list_all (\<lambda>p. \<not> glob p k) ps \<Longrightarrow> map_of (fst (cleanup ps fs)) k = map_of fs k"
  by (simp add: cleanup_files map_of_filter_keep [where P = "\<lambda>n. list_all (\<lambda>p. \<not> glob p n) ps"])

lemma patterns_spare_paths:
  "list_all (\<lambda>p. \<not> glob p input_path) clean_patterns"
  "list_all (\<lambda>p. \<not> glob p output_path) clean_patterns"
  by (simp_all add: clean_patterns_def input_path_def output_path_def)


text \<open>
  With the deck and the output in the directory and nothing else, as in the recorded
  run, the cleanup prints one diagnostic for each of the four patterns.
\<close>

lemma recorded_output:
  "cleanup clean_patterns [(input_path, a), (output_path, b)] =
     ([(input_path, a), (output_path, b)], map rm_diagnostic clean_patterns)"
  by (rule cleanup_no_match)
    (simp add: clean_patterns_def input_path_def output_path_def)

subsection \<open>The run of the notebook\<close>

lemma paths_differ: "output_path \<noteq> input_path"
  by (simp add: input_path_def output_path_def)

lemma run_notebook:
  "run_steps (notebook prog script) w =
     (case writeDeck QE_input_file input_path w of
        (Some e, w1) \<Rightarrow> (Some e, w1)
      | (None, w1) \<Rightarrow> (None, script (snd (execute prog input_path output_path w1))))"
  by (simp add: notebook_def cell_1_def cell_2_def cell_3_def cell_4_def cell_5_def
      split: prod.splits option.splits)

lemma cell_3_aborts:
  assumes "\<not> (input_path \<notin> set (unwritable w) \<and> length QE_input_file \<le> room w)"
  shows "fst (writeDeck QE_input_file input_path w) = Some IOError"
proof (cases "input_path \<in> set (unwritable w)")
  case True
  then show ?thesis by (simp add: writeDeck_refused input_path_plain)
next
  case writable: False
  with assms have small: "room w < length QE_input_file" by simp
  show ?thesis
  proof (cases "length QE_input_file \<le> buffer_size w")
    case True
    with writable small show ?thesis
      by (simp add: writeDeck_fails_at_close input_path_plain)
  next
    case False
    with writable small show ?thesis
      by (simp add: writeDeck_fails_at_write input_path_plain)
  qed
qed

section \<open>Claims about the deck\<close>


text \<open>
  Claim C9: every stage uses the run prefix \<^verbatim>\<open>x0\<close>. It is the \<^verbatim>\<open>prefix\<close> the literal
  assigns, the part before the first dot of the path the command line of cell 4 takes
  its input from and of the path it sends its output to, and of the two cleanup
  patterns that have a dot, \<^verbatim>\<open>x0.w*\<close> and \<^verbatim>\<open>x0.u*\<close>.
\<close>

theorem one_run_prefix:
  "prefix (control tio2_deck) = ''x0'' \<and>
   deck_value ''prefix'' QE_input_file = Some (quoted ''x0'') \<and>
   redirect_of ''<'' (shell_words pw_command) = Some input_path \<and>
   redirect_of ''>'' (shell_words pw_command) = Some output_path \<and>
   run_prefix_of input_path = ''x0'' \<and>
   run_prefix_of output_path = ''x0'' \<and>
   filter (\<lambda>p. CHR ''.'' \<in> set p) clean_patterns = [''x0.w*'', ''x0.u*''] \<and>
   map run_prefix_of [''x0.w*'', ''x0.u*''] = [''x0'', ''x0'']"
proof -
  have "deck_value ''prefix'' QE_input_file = Some (quoted ''x0'')"
    by (simp add: deck_value_def split_QE literal_assignments)
  moreover have "redirect_of ''<'' (shell_words pw_command) = Some input_path"
    "redirect_of ''>'' (shell_words pw_command) = Some output_path"
    by (simp_all add: shell_words_def pw_command_def space_def input_path_def output_path_def)
  ultimately show ?thesis
    by (simp add: tio2_deck_def run_prefix_of_def input_path_def output_path_def
        clean_patterns_def)
qed

section \<open>Claims about the runner\<close>




text \<open>
  Claim C5: writing a deck text to a file and reading the file back gives the text,
  byte for byte. \<open>writeDeck\<close> completes exactly when the path can be opened and the
  device has room for the text; then the file holds exactly the bytes of the text, and
  read back in text mode they come with their line ends translated, so that a text
  without carriage return, as the deck of the notebook is, comes back as it was
  written.
\<close>

theorem write_then_read_back:
  "(fst (writeDeck t path w) = None \<longleftrightarrow>
      nul \<notin> set path \<and> path \<notin> set (unwritable w) \<and> length t \<le> room w) \<and>
   (fst (writeDeck t path w) = None \<longrightarrow>
      map_of (files (snd (writeDeck t path w))) path = Some t \<and>
      py_read path (snd (writeDeck t path w)) = Inr (universal_newlines t) \<and>
      (carriage_return \<notin> set t \<longrightarrow> py_read path (snd (writeDeck t path w)) = Inr t))"
proof -
  have "map_of (files (snd (writeDeck t path w))) path = Some t \<and>
        py_read path (snd (writeDeck t path w)) = Inr (universal_newlines t) \<and>
        (carriage_return \<notin> set t \<longrightarrow> py_read path (snd (writeDeck t path w)) = Inr t)"
    if complete: "fst (writeDeck t path w) = None"
  proof -
    note ok = writeDeck_completes [OF complete]
    show ?thesis
      by (simp add: writeDeck_done [OF ok] py_read_def map_of_store ok(1)
          universal_newlines_plain)
  qed
  moreover have "fst (writeDeck t path w) = None"
    if "nul \<notin> set path \<and> path \<notin> set (unwritable w) \<and> length t \<le> room w"
    using that by (simp add: writeDeck_done)
  ultimately show ?thesis
    using writeDeck_completes [of t path w] by blast
qed

theorem write_then_read_back_witness:
  "nul \<notin> set input_path \<and> input_path \<notin> set (unwritable fresh_world) \<and>
   length QE_input_file \<le> room fresh_world \<and>
   fst (writeDeck QE_input_file input_path fresh_world) = None \<and>
   carriage_return \<notin> set QE_input_file \<and>
   map_of (files (snd (writeDeck QE_input_file input_path fresh_world))) input_path
     = Some QE_input_file \<and>
   py_read input_path (snd (writeDeck QE_input_file input_path fresh_world)) = Inr QE_input_file"
proof -
  have env: "nul \<notin> set input_path" "input_path \<notin> set (unwritable fresh_world)"
    "length QE_input_file \<le> room fresh_world"
    by (simp_all add: input_path_plain fresh_world_def length_QE)
  with write_then_read_back [of QE_input_file input_path fresh_world]
  have h: "fst (writeDeck QE_input_file input_path fresh_world) = None" by blast
  with write_then_read_back [of QE_input_file input_path fresh_world] QE_no_carriage_return
  have "map_of (files (snd (writeDeck QE_input_file input_path fresh_world))) input_path
          = Some QE_input_file"
    and "py_read input_path (snd (writeDeck QE_input_file input_path fresh_world))
          = Inr QE_input_file"
    by blast+
  with env h QE_no_carriage_return show ?thesis by blast
qed

section \<open>Claims about the notebook as a pipeline\<close>

text \<open>
  Claim C8: the steps run one after the other, each to its end before the next, and the
  program is invoked once per run. For every world, program and cleanup script, the
  run is one of four. When cell 3 cannot write the deck, the run ends there with
  IOError: no program is started and no script runs. Otherwise the deck is written and
  closed, and then: with an output path the shell may not write, no program is started
  and the script runs on the world cell 3 left; with a command that cannot be started,
  the output file is left empty and the script runs; with a program, it is applied once,
  to the whole deck on its standard input and the directory holding the finished deck
  file and the empty output file, what it printed is the content of the output file,
  and the script runs on the world the program left.
\<close>

theorem notebook_run:
  "(\<not> (input_path \<notin> set (unwritable w) \<and> length QE_input_file \<le> room w) \<longrightarrow>
      fst (run_steps (notebook prog script) w) = Some IOError \<and>
      run_steps (notebook prog script) w = writeDeck QE_input_file input_path w) \<and>
   (input_path \<notin> set (unwritable w) \<and> length QE_input_file \<le> room w \<and>
    output_path \<in> set (unwritable w) \<longrightarrow>
      run_steps (notebook prog script) w = (None, script (deck_written w))) \<and>
   (input_path \<notin> set (unwritable w) \<and> length QE_input_file \<le> room w \<and>
    output_path \<notin> set (unwritable w) \<and> prog = None \<longrightarrow>
      run_steps (notebook prog script) w =
        (None, script ((deck_written w)\<lparr>files := program_finds w\<rparr>))) \<and>
   (input_path \<notin> set (unwritable w) \<and> length QE_input_file \<le> room w \<and>
    output_path \<notin> set (unwritable w) \<and> prog = Some p \<longrightarrow>
      run_steps (notebook prog script) w =
        (None, script ((deck_written w)
           \<lparr>files := store output_path (fst (p QE_input_file (program_finds w)))
                       (fst (snd (p QE_input_file (program_finds w))))\<rparr>)))"
proof (cases "input_path \<notin> set (unwritable w) \<and> length QE_input_file \<le> room w")
  case False
  from cell_3_aborts [OF False] False show ?thesis
    by (cases "writeDeck QE_input_file input_path w") (auto simp: run_notebook)
next
  case True
  then have wd: "writeDeck QE_input_file input_path w = (None, deck_written w)"
    by (simp add: writeDeck_done input_path_plain deck_written_def)
  have inp: "map_of (files (deck_written w)) input_path = Some QE_input_file"
    by (simp add: deck_written_def map_of_store)
  have unw: "unwritable (deck_written w) = unwritable w"
    by (simp add: deck_written_def)
  from True show ?thesis
    by (cases prog)
      (simp_all add: run_notebook wd execute_def inp unw program_finds_def case_prod_beta)
qed

theorem notebook_run_witness:
  "input_path \<notin> set (unwritable fresh_world) \<and> length QE_input_file \<le> room fresh_world \<and>
   output_path \<notin> set (unwritable fresh_world) \<and>
   run_steps (notebook (Some stub_program) clean_sh) fresh_world =
     (None,
      \<lparr>files = [(output_path, ''JOB DONE.''), (''x0.log'', ''run;''), (input_path, QE_input_file)],
       handles = [], unwritable = [], room = 1000000 - 1456, buffer_size = 8192,
       printed = [rm_diagnostic ''sl*'', rm_diagnostic ''CR*'']\<rparr>) \<and>
   \<not> (input_path \<notin> set (unwritable full_device) \<and> length QE_input_file \<le> room full_device) \<and>
   fst (run_steps (notebook (Some stub_program) clean_sh) full_device) = Some IOError \<and>
   map_of (files (snd (run_steps (notebook (Some stub_program) clean_sh) full_device)))
     output_path = None"
proof -
  have lookup: "map_of (store input_path QE_input_file []) ''x0.log'' = None"
    by (simp add: store_def input_path_def)
  have 1: "run_steps (notebook (Some stub_program) clean_sh) fresh_world =
     (None,
      \<lparr>files = [(output_path, ''JOB DONE.''), (''x0.log'', ''run;''), (input_path, QE_input_file)],
       handles = [], unwritable = [], room = 1000000 - 1456, buffer_size = 8192,
       printed = [rm_diagnostic ''sl*'', rm_diagnostic ''CR*'']\<rparr>)"
    using notebook_run [of fresh_world "Some stub_program" clean_sh stub_program]
    by (simp add: fresh_world_def length_QE stub_program_def deck_written_def
        program_finds_def clean_sh_def cleanup_step_def clean_patterns_def rm_glob_def
        store_def input_path_def output_path_def)
  have 2: "fst (run_steps (notebook (Some stub_program) clean_sh) full_device) = Some IOError"
    "map_of (files (snd (run_steps (notebook (Some stub_program) clean_sh) full_device)))
       output_path = None"
    using notebook_run [of full_device "Some stub_program" clean_sh stub_program]
      writeDeck_fails_at_close [of input_path full_device QE_input_file]
    by (simp_all add: full_device_def fresh_world_def length_QE input_path_plain
        map_of_store paths_differ)
  from 1 2 show ?thesis
    by (simp add: fresh_world_def full_device_def length_QE)
qed

section \<open>Claims about cleanup\<close>

text \<open>
  Claim C2: cleanup is idempotent. For every list of patterns and every world, the
  cleanup step raises nothing, and a second cleanup right after the first, when no
  file matches any more, raises nothing either and leaves the files as they are; it
  prints one diagnostic for each pattern, as the recorded run of the notebook did.
\<close>

theorem cleanup_idempotent:
  "fst (cleanup_step ps w) = None \<and>
   fst (cleanup_step ps (snd (cleanup_step ps w))) = None \<and>
   files (snd (cleanup_step ps (snd (cleanup_step ps w)))) = files (snd (cleanup_step ps w)) \<and>
   printed (snd (cleanup_step ps (snd (cleanup_step ps w)))) =
     printed (snd (cleanup_step ps w)) @ map rm_diagnostic ps"
proof -
  obtain fs d where c: "cleanup ps (files w) = (fs, d)" by (cases "cleanup ps (files w)")
  then have "fs = fst (cleanup ps (files w))" by simp
  then have "cleanup ps fs = (fs, map rm_diagnostic ps)" by (simp add: cleanup_second_run)
  with c show ?thesis by (simp add: cleanup_step_def)
qed

text \<open>
  Claim C10: none of the patterns \<^verbatim>\<open>x0.w*\<close>, \<^verbatim>\<open>sl*\<close>, \<^verbatim>\<open>x0.u*\<close>, \<^verbatim>\<open>CR*\<close> matches
  \<^verbatim>\<open>x0.md.in\<close> or \<^verbatim>\<open>x0.md.out\<close>, so in every world the cleanup step leaves both
  files as they are.
\<close>

theorem cleanup_spares_deck_and_output:
  "list_all (\<lambda>p. \<not> glob p input_path \<and> \<not> glob p output_path) clean_patterns \<and>
   py_read input_path (snd (cleanup_step clean_patterns w)) = py_read input_path w \<and>
   py_read output_path (snd (cleanup_step clean_patterns w)) = py_read output_path w"
proof -
  have "files (snd (cleanup_step clean_patterns w)) = fst (cleanup clean_patterns (files w))"
    by (simp add: cleanup_step_def split: prod.splits)
  then show ?thesis
    using patterns_spare_paths
    by (simp add: py_read_def cleanup_keeps) (simp add: clean_patterns_def input_path_def output_path_def)
qed

end
